theory Spec2Isabelle
  imports Main "HOL-Library.Word"
begin

section \<open>Clamped arithmetic (lib/include/clamped.h)\<close>

text \<open>
  The header provides six inline operations on fixed-width integers that saturate at the
  minimum or maximum of the output type. Each C function writes its result through the
  pointer \<open>out\<close> and returns a \<open>Bool\<close>; the embedding returns the pair
  \<open>(value written to out, returned Bool)\<close>.

  C integers are words: \<open>int32\<close> and \<open>uint32\<close> are \<open>32 word\<close>, \<open>int64\<close> and
  \<open>uint64\<close> are \<open>64 word\<close>. A signed variable is read with \<open>sint\<close> and compared with
  \<open><s\<close>, an unsigned one is read with \<open>uint\<close> and compared with \<open><\<close>. Unsigned
  arithmetic wraps modulo two to the width, as C defines it. Signed arithmetic is
  defined by C only when the exact result fits the type: a signed operation is
  therefore a partial function, and an overflowing evaluation has the value \<open>None\<close>,
  about which nothing is known (the compiled code may wrap, trap, or drop the tests that
  follow).
\<close>

type_synonym int32 = "32 word"
type_synonym uint32 = "32 word"
type_synonym int64 = "64 word"
type_synonym uint64 = "64 word"

text \<open>
  Modelled from the spec: the limits \<open>MAX_INT32\<close>, \<open>MIN_INT32\<close> and \<open>MAX_UINT32\<close> come
  from \<open>vm_basic_types.h\<close>, which is not part of the sources at hand; they are the
  natural bounds of the 32-bit types (\<open>INT32_MAX\<close>, \<open>INT32_MIN\<close>, \<open>UINT32_MAX\<close>).
\<close>

definition MAX_INT32 :: int32 where
  "MAX_INT32 = 0x7FFFFFFF"

definition MIN_INT32 :: int32 where
  "MIN_INT32 = 0x80000000"

definition MAX_UINT32 :: uint32 where
  "MAX_UINT32 = 0xFFFFFFFF"

subsection \<open>The six operations\<close>

text \<open>The \<open>int32\<close> range, and the addition of two \<open>int32\<close> values as C defines it.\<close>

definition in_int32 :: "int \<Rightarrow> bool" where
  "in_int32 v \<longleftrightarrow> - 2147483648 \<le> v \<and> v \<le> 2147483647"

definition add_int32 :: "int32 \<Rightarrow> int32 \<Rightarrow> int32 option" where
  "add_int32 a b = (if in_int32 (sint a + sint b) then Some (a + b) else None)"

text \<open>
  \<open>Clamped_SAdd32\<close>: the body begins with \<open>result = a + b\<close> on two \<open>int32\<close> values,
  evaluated before any test; the two direction tests follow. Where the addition is
  undefined, so is the call.
\<close>

definition Clamped_SAdd32 :: "int32 \<Rightarrow> int32 \<Rightarrow> (int32 \<times> bool) option" where
  "Clamped_SAdd32 a b =
     (case add_int32 a b of
        None \<Rightarrow> None
      | Some result \<Rightarrow>
          Some (if 0 <s b \<and> result <s a then (MAX_INT32, False)
                else if b <s 0 \<and> a <s result then (MIN_INT32, False)
                else (result, True)))"

text \<open>
  \<open>Clamped_U64To32\<close>: the cast \<open>(uint32)a\<close> keeps the low 32 bits; in the comparison
  \<open>a != clamped\<close> the 32-bit value is zero-extended to 64 bits.
\<close>

definition Clamped_U64To32 :: "uint64 \<Rightarrow> uint32 \<times> bool" where
  "Clamped_U64To32 a =
     (let clamped = (ucast a :: uint32) in
      if a \<noteq> (ucast clamped :: uint64) then (MAX_UINT32, False)
      else (clamped, True))"

text \<open>
  \<open>Clamped_S64To32\<close>: the cast \<open>(int32)a\<close> keeps the low 32 bits; in the comparison
  \<open>a != clamped\<close> the 32-bit value is sign-extended to 64 bits.
\<close>

definition Clamped_S64To32 :: "int64 \<Rightarrow> int32 \<times> bool" where
  "Clamped_S64To32 a =
     (let clamped = (ucast a :: int32) in
      if a \<noteq> (scast clamped :: int64)
      then (if a <s 0 then MIN_INT32 else MAX_INT32, False)
      else (clamped, True))"

text \<open>\<open>Clamped_UMul32\<close>: \<open>(uint64)a * b\<close>, both operands zero-extended.\<close>

definition Clamped_UMul32 :: "uint32 \<Rightarrow> uint32 \<Rightarrow> uint32 \<times> bool" where
  "Clamped_UMul32 a b = Clamped_U64To32 ((ucast a :: uint64) * (ucast b :: uint64))"

text \<open>\<open>Clamped_SMul32\<close>: \<open>(int64)a * b\<close>, both operands sign-extended.\<close>

definition Clamped_SMul32 :: "int32 \<Rightarrow> int32 \<Rightarrow> int32 \<times> bool" where
  "Clamped_SMul32 a b = Clamped_S64To32 ((scast a :: int64) * (scast b :: int64))"

text \<open>\<open>Clamped_UAdd32\<close>: \<open>c = a + b\<close> at 32 bits, then \<open>c < a || c < b\<close>.\<close>

definition Clamped_UAdd32 :: "uint32 \<Rightarrow> uint32 \<Rightarrow> uint32 \<times> bool" where
  "Clamped_UAdd32 a b =
     (let c = a + b in
      if c < a \<or> c < b then (MAX_UINT32, False)
      else (c, True))"


subsection \<open>Reference functions of the specification\<close>

text \<open>
  Multiplication as the specification words it: the narrowing conversion applied to the
  exact product of the two operands, taken as an integer and stored in 64 bits.
\<close>

definition spec_unsignedMul32 :: "uint32 \<Rightarrow> uint32 \<Rightarrow> uint32 \<times> bool" where
  "spec_unsignedMul32 a b = Clamped_U64To32 (word_of_int (uint a * uint b))"

definition spec_signedMul32 :: "int32 \<Rightarrow> int32 \<Rightarrow> int32 \<times> bool" where
  "spec_signedMul32 a b = Clamped_S64To32 (word_of_int (sint a * sint b))"

text \<open>
  Clamping an exact integer result to the range \<open>lo .. hi\<close> of the output type: the
  value itself when it is in range, otherwise the boundary on its side.
\<close>

definition saturate :: "int \<Rightarrow> int \<Rightarrow> int \<Rightarrow> int" where
  "saturate lo hi x = (if x < lo then lo else if hi < x then hi else x)"

subsection \<open>The signed multiplication with overflow made visible\<close>

text \<open>
  \<open>Clamped_SMul32\<close> above takes the 64-bit signed product as it is computed. To say that
  this multiplication is never an overflowing one, \<open>mul_int64_checked\<close> is the \<open>int64\<close>
  multiplication as C defines it, and \<open>Clamped_SMul32_checked\<close> is the body of
  \<open>Clamped_SMul32\<close> with it.
\<close>

definition in_int64 :: "int \<Rightarrow> bool" where
  "in_int64 v \<longleftrightarrow> - 9223372036854775808 \<le> v \<and> v \<le> 9223372036854775807"

definition mul_int64_checked :: "int64 \<Rightarrow> int64 \<Rightarrow> int64 option" where
  "mul_int64_checked a b = (if in_int64 (sint a * sint b) then Some (a * b) else None)"

definition Clamped_SMul32_checked :: "int32 \<Rightarrow> int32 \<Rightarrow> (int32 \<times> bool) option" where
  "Clamped_SMul32_checked a b =
     (case mul_int64_checked (scast a) (scast b) of
        None \<Rightarrow> None
      | Some p \<Rightarrow> Some (Clamped_S64To32 p))"

section \<open>Arithmetic of the two widths\<close>

lemma uint32_range:
  fixes a :: "32 word"
  shows "0 \<le> uint a" and "uint a \<le> 4294967295"
  using uint_lt2p [of a] by simp_all

lemma sint32_range:
  fixes a :: "32 word"
  shows "- 2147483648 \<le> sint a" and "sint a \<le> 2147483647"
  using sint_ge [of a] sint_lt [of a] by simp_all

lemma limits_values:
  "sint MAX_INT32 = 2147483647" "sint MIN_INT32 = - 2147483648" "uint MAX_UINT32 = 4294967295"
  by (simp_all add: MAX_INT32_def MIN_INT32_def MAX_UINT32_def)

lemma sless_0_iff:
  fixes a :: "'a::len word"
  shows "a <s 0 \<longleftrightarrow> sint a < 0" and "0 <s a \<longleftrightarrow> 0 < sint a"
  by (simp_all add: word_sless_alt)

lemma mod_2_32_window:
  fixes x :: int
  shows "0 \<le> x \<Longrightarrow> x < 4294967296 \<Longrightarrow> x mod 4294967296 = x"
    and "4294967296 \<le> x \<Longrightarrow> x < 8589934592 \<Longrightarrow> x mod 4294967296 = x - 4294967296"
    and "- 4294967296 \<le> x \<Longrightarrow> x < 0 \<Longrightarrow> x mod 4294967296 = x + 4294967296"
proof -
  show "0 \<le> x \<Longrightarrow> x < 4294967296 \<Longrightarrow> x mod 4294967296 = x"
    by (rule mod_pos_pos_trivial)
next
  assume "4294967296 \<le> x" "x < 8589934592"
  then have "(x - 4294967296) mod 4294967296 = x - 4294967296"
    by (intro mod_pos_pos_trivial) simp_all
  then show "x mod 4294967296 = x - 4294967296"
    by (simp only: minus_mod_self2)
next
  assume "- 4294967296 \<le> x" "x < 0"
  then have "(x + 4294967296) mod 4294967296 = x + 4294967296"
    by (intro mod_pos_pos_trivial) simp_all
  then show "x mod 4294967296 = x + 4294967296"
    by (simp only: mod_add_self2)
qed

subsection \<open>32-bit addition read as an integer\<close>

lemma uint_add32:
  fixes a b :: "32 word"
  shows "uint (a + b) =
    (if 4294967296 \<le> uint a + uint b then uint a + uint b - 4294967296 else uint a + uint b)"
proof -
  have eq: "uint (a + b) = (uint a + uint b) mod 4294967296"
    by (simp add: uint_word_ariths)
  show ?thesis
  proof (cases "4294967296 \<le> uint a + uint b")
    case True
    then show ?thesis
      using uint32_range [of a] uint32_range [of b] by (simp add: eq mod_2_32_window(2))
  next
    case False
    then show ?thesis
      using uint32_range [of a] uint32_range [of b] by (simp add: eq mod_2_32_window(1))
  qed
qed

lemma sint_add32:
  fixes a b :: "32 word"
  shows "sint (a + b) =
    (if 2147483648 \<le> sint a + sint b then sint a + sint b - 4294967296
     else if sint a + sint b < - 2147483648 then sint a + sint b + 4294967296
     else sint a + sint b)"
proof -
  note ra = sint32_range [of a] and rb = sint32_range [of b]
  have "sint (a + b) = signed_take_bit 31 (sint a + sint b)"
    by (simp add: sint_word_ariths)
  also have "\<dots> = (sint a + sint b + 2147483648) mod 4294967296 - 2147483648"
    by (simp add: signed_take_bit_eq_take_bit_shift take_bit_eq_mod)
  finally have eq: "sint (a + b) = (sint a + sint b + 2147483648) mod 4294967296 - 2147483648" .
  consider (hi) "2147483648 \<le> sint a + sint b"
    | (lo) "sint a + sint b < - 2147483648"
    | (mid) "- 2147483648 \<le> sint a + sint b" "sint a + sint b < 2147483648"
    by linarith
  then show ?thesis
  proof cases
    case hi
    with ra rb show ?thesis
      by (simp add: eq mod_2_32_window(2))
  next
    case lo
    with ra rb show ?thesis
      by (simp add: eq mod_2_32_window(3))
  next
    case mid
    then show ?thesis
      by (simp add: eq mod_2_32_window(1))
  qed
qed

subsection \<open>Casts between 64 and 32 bits\<close>

lemma uint_ucast_64_32:
  fixes a :: "64 word"
  assumes "uint a \<le> 4294967295"
  shows "uint (ucast a :: 32 word) = uint a"
  using assms by (simp add: unsigned_ucast_eq take_bit_int_eq_self)

lemma sint_ucast_64_32:
  fixes a :: "64 word"
  shows "sint (ucast a :: 32 word) = signed_take_bit 31 (sint a)"
proof -
  have "sint (ucast a :: 32 word) = signed_take_bit 31 (uint a)"
    by (simp add: signed_ucast_eq)
  also have "\<dots> = signed_take_bit 31 (signed_take_bit 63 (uint a))"
    by simp
  also have "\<dots> = signed_take_bit 31 (sint a)"
    by (simp add: sint_uint)
  finally show ?thesis .
qed

lemma sint_ucast_64_32_in_range:
  fixes a :: "64 word"
  assumes "- 2147483648 \<le> sint a" "sint a \<le> 2147483647"
  shows "sint (ucast a :: 32 word) = sint a"
  using assms by (simp add: sint_ucast_64_32 signed_take_bit_int_eq_self)

subsection \<open>The 64-bit products are exact\<close>

lemma uint_umul_64:
  fixes a b :: "32 word"
  shows "uint ((ucast a :: 64 word) * (ucast b :: 64 word)) = uint a * uint b"
proof -
  have ua: "uint (ucast a :: 64 word) = uint a" and ub: "uint (ucast b :: 64 word) = uint b"
    by (simp_all add: uint_up_ucast is_up)
  have "uint a * uint b \<le> 4294967295 * 4294967295"
    using uint32_range [of a] uint32_range [of b] by (intro mult_mono) simp_all
  then have "uint a * uint b < 2 ^ 64" by simp
  moreover have "0 \<le> uint a * uint b" by simp
  ultimately show ?thesis
    by (simp add: uint_word_ariths ua ub)
qed

lemma smul_32_bounds:
  fixes a b :: "32 word"
  shows "- 4611686018427387904 \<le> sint a * sint b" and "sint a * sint b \<le> 4611686018427387904"
proof -
  have "\<bar>sint a * sint b\<bar> \<le> 2147483648 * 2147483648"
    unfolding abs_mult using sint32_range [of a] sint32_range [of b]
    by (intro mult_mono) simp_all
  then show "- 4611686018427387904 \<le> sint a * sint b"
    and "sint a * sint b \<le> 4611686018427387904"
    by (simp_all add: abs_le_iff)
qed

lemma sint_smul_64:
  fixes a b :: "32 word"
  shows "sint ((scast a :: 64 word) * (scast b :: 64 word)) = sint a * sint b"
proof -
  have sa: "sint (scast a :: 64 word) = sint a" and sb: "sint (scast b :: 64 word) = sint b"
    by (simp_all add: sint_up_scast is_up)
  have "- (2 ^ 63) \<le> sint a * sint b \<and> sint a * sint b < 2 ^ 63"
    using smul_32_bounds [of a b] by simp
  then show ?thesis
    by (simp add: sint_word_mult sa sb signed_take_bit_int_eq_self)
qed

section \<open>Each operation in terms of the exact result\<close>

lemma UAdd32_overflow_iff:
  fixes a b :: "32 word"
  shows "(a + b < a \<or> a + b < b) \<longleftrightarrow> 4294967295 < uint a + uint b"
  using uint32_range [of a] uint32_range [of b]
  by (auto simp: word_less_def uint_add32 split: if_splits)

lemma Clamped_UAdd32_char:
  "Clamped_UAdd32 a b =
     (if 4294967295 < uint a + uint b then (MAX_UINT32, False) else (a + b, True))"
  unfolding Clamped_UAdd32_def Let_def UAdd32_overflow_iff by simp

lemma U64To32_overflow_iff:
  fixes a :: "64 word"
  shows "a \<noteq> (ucast (ucast a :: 32 word) :: 64 word) \<longleftrightarrow> 4294967295 < uint a"
proof -
  have "uint (ucast (ucast a :: 32 word) :: 64 word) = take_bit 32 (uint a)"
    by (simp add: unsigned_ucast_eq unsigned_take_bit_eq)
  then have "a = (ucast (ucast a :: 32 word) :: 64 word) \<longleftrightarrow> uint a = take_bit 32 (uint a)"
    by (simp add: word_uint_eq_iff)
  also have "\<dots> \<longleftrightarrow> uint a < 4294967296"
    using take_bit_int_eq_self_iff [of 32 "uint a"] by auto
  finally show ?thesis by auto
qed

lemma Clamped_U64To32_char:
  "Clamped_U64To32 a =
     (if 4294967295 < uint a then (MAX_UINT32, False) else (ucast a, True))"
  unfolding Clamped_U64To32_def Let_def U64To32_overflow_iff by simp

lemma S64To32_overflow_iff:
  fixes a :: "64 word"
  shows "a \<noteq> (scast (ucast a :: 32 word) :: 64 word)
    \<longleftrightarrow> sint a < - 2147483648 \<or> 2147483647 < sint a"
proof -
  have "sint (scast (ucast a :: 32 word) :: 64 word) = sint (ucast a :: 32 word)"
    by (rule sint_up_scast) (simp add: is_up)
  moreover have "a = (scast (ucast a :: 32 word) :: 64 word)
      \<longleftrightarrow> sint a = sint (scast (ucast a :: 32 word) :: 64 word)"
    by (rule word_eq_iff_signed)
  ultimately have "a = (scast (ucast a :: 32 word) :: 64 word)
      \<longleftrightarrow> sint a = signed_take_bit 31 (sint a)"
    by (simp only: sint_ucast_64_32)
  also have "\<dots> \<longleftrightarrow> - 2147483648 \<le> sint a \<and> sint a < 2147483648"
    using signed_take_bit_int_eq_self_iff [of 31 "sint a"] by auto
  finally show ?thesis by auto
qed

lemma Clamped_S64To32_char:
  "Clamped_S64To32 a =
     (if 2147483647 < sint a then (MAX_INT32, False)
      else if sint a < - 2147483648 then (MIN_INT32, False)
      else (ucast a, True))"
  unfolding Clamped_S64To32_def Let_def S64To32_overflow_iff sless_0_iff by auto

lemma SAdd32_pos_overflow_iff:
  fixes a b :: "32 word"
  shows "(0 <s b \<and> a + b <s a) \<longleftrightarrow> 2147483647 < sint a + sint b"
  using sint32_range [of a] sint32_range [of b]
  by (auto simp: word_sless_alt sint_add32 split: if_splits)

lemma SAdd32_neg_overflow_iff:
  fixes a b :: "32 word"
  shows "(b <s 0 \<and> a <s a + b) \<longleftrightarrow> sint a + sint b < - 2147483648"
  using sint32_range [of a] sint32_range [of b]
  by (auto simp: word_sless_alt sint_add32 split: if_splits)

lemma sint_add32_in_range:
  fixes a b :: "32 word"
  assumes "in_int32 (sint a + sint b)"
  shows "sint (a + b) = sint a + sint b"
  using assms by (simp add: in_int32_def sint_add32)

lemma Clamped_SAdd32_char:
  "Clamped_SAdd32 a b = (if in_int32 (sint a + sint b) then Some (a + b, True) else None)"
proof (cases "in_int32 (sint a + sint b)")
  case True
  then have "\<not> (0 <s b \<and> a + b <s a)" and "\<not> (b <s 0 \<and> a <s a + b)"
    unfolding SAdd32_pos_overflow_iff SAdd32_neg_overflow_iff
    by (simp_all add: in_int32_def)
  with True show ?thesis
    by (simp add: Clamped_SAdd32_def add_int32_def)
next
  case False
  then show ?thesis
    by (simp add: Clamped_SAdd32_def add_int32_def)
qed

lemma Clamped_SAdd32_overflow_inputs:
  "Clamped_SAdd32 2147483647 1 = None" "Clamped_SAdd32 1 2147483647 = None"
  "Clamped_SAdd32 (- 2147483648) (- 1) = None"
  by (simp_all add: Clamped_SAdd32_char in_int32_def)

subsection \<open>The value written to \<open>out\<close>\<close>

lemma value_UAdd32:
  "uint (fst (Clamped_UAdd32 a b)) = saturate 0 4294967295 (uint a + uint b)"
proof -
  have "\<not> uint a + uint b < 0"
    using uint32_range(1) [of a] uint32_range(1) [of b] by linarith
  then show ?thesis
    by (simp add: Clamped_UAdd32_char saturate_def limits_values uint_add32)
qed

lemma value_U64To32:
  "uint (fst (Clamped_U64To32 a)) = saturate 0 4294967295 (uint a)"
  by (simp add: Clamped_U64To32_char saturate_def limits_values uint_ucast_64_32 not_less)

lemma value_S64To32:
  "sint (fst (Clamped_S64To32 a)) = saturate (- 2147483648) 2147483647 (sint a)"
  by (simp add: Clamped_S64To32_char saturate_def limits_values sint_ucast_64_32_in_range)

lemma value_UMul32:
  "uint (fst (Clamped_UMul32 a b)) = saturate 0 4294967295 (uint a * uint b)"
  unfolding Clamped_UMul32_def value_U64To32 uint_umul_64 ..

lemma value_SMul32:
  "sint (fst (Clamped_SMul32 a b)) = saturate (- 2147483648) 2147483647 (sint a * sint b)"
  unfolding Clamped_SMul32_def value_S64To32 sint_smul_64 ..

lemma saturate_closest:
  assumes "lo \<le> hi" "lo \<le> y" "y \<le> hi"
  shows "y = saturate lo hi x \<or> \<bar>x - saturate lo hi x\<bar> < \<bar>x - y\<bar>"
  using assms by (auto simp: saturate_def)

lemma saturate_mono: "lo \<le> hi \<Longrightarrow> x \<le> y \<Longrightarrow> saturate lo hi x \<le> saturate lo hi y"
  by (auto simp: saturate_def)

subsection \<open>The returned flag and the clamp values\<close>

lemma flag_S64To32:
  "snd (Clamped_S64To32 w) \<longleftrightarrow> in_int32 (sint w)"
  by (auto simp: Clamped_S64To32_char in_int32_def)

lemma flag_SMul32:
  "snd (Clamped_SMul32 a b) \<longleftrightarrow> in_int32 (sint a * sint b)"
  unfolding Clamped_SMul32_def flag_S64To32 sint_smul_64 ..

lemma flag_UAdd32:
  "snd (Clamped_UAdd32 a b) \<longleftrightarrow> uint a + uint b \<le> 4294967295"
  by (auto simp: Clamped_UAdd32_char)

lemma flag_U64To32:
  "snd (Clamped_U64To32 w) \<longleftrightarrow> uint w \<le> 4294967295"
  by (auto simp: Clamped_U64To32_char)

lemma flag_UMul32:
  "snd (Clamped_UMul32 a b) \<longleftrightarrow> uint a * uint b \<le> 4294967295"
  unfolding Clamped_UMul32_def flag_U64To32 uint_umul_64 ..

section \<open>The claims\<close>

text \<open>
  C1. \<open>Clamped_SAdd32\<close> against the exact sum of its two \<open>int32\<close> inputs: \<open>TRUE\<close> and the
  exact sum when it lies in the \<open>int32\<close> range, \<open>FALSE\<close> and \<open>MAX_INT32\<close> when it is above,
  \<open>FALSE\<close> and \<open>MIN_INT32\<close> when it is below. The code meets the first part on every input.
  It misses the other two: \<open>result = a + b\<close> is evaluated before the tests, so on every
  input whose exact sum is out of range the call has no defined result, as at
  \<open>INT32_MAX + 1\<close> and at \<open>INT32_MIN + (-1)\<close>.
\<close>

theorem Clamped_SAdd32_defined_in_range_only:
  fixes a b :: int32
  shows "(in_int32 (sint a + sint b) \<longrightarrow>
            Clamped_SAdd32 a b = Some (a + b, True) \<and> sint (a + b) = sint a + sint b)
       \<and> (\<not> in_int32 (sint a + sint b) \<longrightarrow> Clamped_SAdd32 a b = None)
       \<and> Clamped_SAdd32 2147483647 1 = None
       \<and> Clamped_SAdd32 (- 2147483648) (- 1) = None"
proof -
  have "in_int32 (sint a + sint b) \<longrightarrow>
      Clamped_SAdd32 a b = Some (a + b, True) \<and> sint (a + b) = sint a + sint b"
    by (simp add: Clamped_SAdd32_char sint_add32_in_range)
  moreover have "\<not> in_int32 (sint a + sint b) \<longrightarrow> Clamped_SAdd32 a b = None"
    by (simp add: Clamped_SAdd32_char)
  ultimately show ?thesis
    using Clamped_SAdd32_overflow_inputs(1,3) by blast
qed

text \<open>
  The two branches of C1 at \<open>5 + 7\<close> and at \<open>INT32_MAX + INT32_MAX\<close>.
\<close>

theorem Clamped_SAdd32_defined_in_range_only_witness:
  "(Clamped_SAdd32 5 7 = Some (5 + 7, True)
      \<and> sint (5 + 7 :: int32) = sint (5 :: int32) + sint (7 :: int32))
   \<and> Clamped_SAdd32 2147483647 2147483647 = None"
proof -
  have h1: "in_int32 (sint (5 :: int32) + sint (7 :: int32))"
    by (simp add: in_int32_def)
  have h2: "\<not> in_int32 (sint (2147483647 :: int32) + sint (2147483647 :: int32))"
    by (simp add: in_int32_def)
  from Clamped_SAdd32_defined_in_range_only [of 5 7] h1
  have "Clamped_SAdd32 5 7 = Some (5 + 7, True)
      \<and> sint (5 + 7 :: int32) = sint (5 :: int32) + sint (7 :: int32)"
    by blast
  moreover from Clamped_SAdd32_defined_in_range_only [of 2147483647 2147483647] h2
  have "Clamped_SAdd32 2147483647 2147483647 = None"
    by blast
  ultimately show ?thesis by blast
qed

text \<open>
  C2. Narrowing round trip and clamp. A \<open>uint64\<close> up to \<open>UINT32_MAX\<close> is converted by
  \<open>Clamped_U64To32\<close> with \<open>TRUE\<close> to a value that zero-extends back to the input, a
  larger one gives \<open>FALSE\<close> and \<open>MAX_UINT32\<close>. An \<open>int64\<close> within the \<open>int32\<close>
  range is converted by \<open>Clamped_S64To32\<close> with \<open>TRUE\<close> to a value that sign-extends
  back to the input; above the range the result is \<open>FALSE\<close> and \<open>MAX_INT32\<close>, below it
  \<open>FALSE\<close> and \<open>MIN_INT32\<close>.
\<close>

theorem narrowing_round_trip_and_clamp:
  fixes u :: uint64 and s :: int64
  shows "(uint u \<le> 4294967295 \<longrightarrow>
            snd (Clamped_U64To32 u) \<and> (ucast (fst (Clamped_U64To32 u)) :: uint64) = u)
       \<and> (4294967295 < uint u \<longrightarrow>
            Clamped_U64To32 u = (MAX_UINT32, False) \<and> uint MAX_UINT32 = 4294967295)
       \<and> (- 2147483648 \<le> sint s \<and> sint s \<le> 2147483647 \<longrightarrow>
            snd (Clamped_S64To32 s) \<and> (scast (fst (Clamped_S64To32 s)) :: int64) = s)
       \<and> (2147483647 < sint s \<longrightarrow>
            Clamped_S64To32 s = (MAX_INT32, False) \<and> sint MAX_INT32 = 2147483647)
       \<and> (sint s < - 2147483648 \<longrightarrow>
            Clamped_S64To32 s = (MIN_INT32, False) \<and> sint MIN_INT32 = - 2147483648)"
proof -
  have u_ok: "snd (Clamped_U64To32 u) \<and> (ucast (fst (Clamped_U64To32 u)) :: uint64) = u"
    if "uint u \<le> 4294967295"
    using that U64To32_overflow_iff [of u] by (simp add: Clamped_U64To32_char)
  have s_ok: "snd (Clamped_S64To32 s) \<and> (scast (fst (Clamped_S64To32 s)) :: int64) = s"
    if "- 2147483648 \<le> sint s \<and> sint s \<le> 2147483647"
    using that S64To32_overflow_iff [of s] by (simp add: Clamped_S64To32_char)
  show ?thesis
    using u_ok s_ok by (simp add: Clamped_U64To32_char Clamped_S64To32_char limits_values)
qed

text \<open>
  The five cases of C2 at the last value inside and the first value outside each range.
\<close>

theorem narrowing_round_trip_and_clamp_witness:
  "(snd (Clamped_U64To32 4294967295) \<and> (ucast (fst (Clamped_U64To32 4294967295)) :: uint64) = 4294967295)
   \<and> Clamped_U64To32 4294967296 = (MAX_UINT32, False)
   \<and> (snd (Clamped_S64To32 (- 2147483648)) \<and> (scast (fst (Clamped_S64To32 (- 2147483648))) :: int64) = - 2147483648)
   \<and> Clamped_S64To32 2147483648 = (MAX_INT32, False)
   \<and> Clamped_S64To32 (- 2147483649) = (MIN_INT32, False)"
proof -
  have h1: "uint (4294967295 :: uint64) \<le> 4294967295" by simp
  have h2: "4294967295 < uint (4294967296 :: uint64)" by simp
  have h3: "- 2147483648 \<le> sint (- 2147483648 :: int64) \<and> sint (- 2147483648 :: int64) \<le> 2147483647"
    by simp
  have h4: "2147483647 < sint (2147483648 :: int64)" by simp
  have h5: "sint (- 2147483649 :: int64) < - 2147483648" by simp
  show ?thesis
    using narrowing_round_trip_and_clamp [of 4294967295 "- 2147483648"]
      narrowing_round_trip_and_clamp [of 4294967296 2147483648]
      narrowing_round_trip_and_clamp [of 4294967296 "- 2147483649"]
      h1 h2 h3 h4 h5
    by blast
qed

text \<open>
  C3. For every pair of \<open>uint32\<close> inputs of \<open>Clamped_UAdd32\<close>, with \<open>c\<close> the sum modulo
  \<open>2^32\<close>: when \<open>c < a\<close> or \<open>c < b\<close> the function returns \<open>FALSE\<close> and writes
  \<open>MAX_UINT32\<close>; otherwise it returns \<open>TRUE\<close> and writes \<open>c\<close>, which is then the exact
  sum. The test holds exactly when the exact sum is above \<open>UINT32_MAX\<close>.
\<close>

theorem Clamped_UAdd32_overflow_test:
  fixes a b :: uint32
  shows "(a + b < a \<or> a + b < b \<longrightarrow>
            Clamped_UAdd32 a b = (MAX_UINT32, False) \<and> uint MAX_UINT32 = 4294967295)
       \<and> (\<not> (a + b < a \<or> a + b < b) \<longrightarrow>
            Clamped_UAdd32 a b = (a + b, True) \<and> uint (a + b) = uint a + uint b)
       \<and> uint (a + b) = (uint a + uint b) mod 2 ^ 32
       \<and> (a + b < a \<or> a + b < b) = (4294967295 < uint a + uint b)"
proof -
  have "uint (a + b) = uint a + uint b" if "\<not> (a + b < a \<or> a + b < b)"
    using that unfolding UAdd32_overflow_iff by (simp add: uint_add32)
  moreover have "uint (a + b) = (uint a + uint b) mod 2 ^ 32"
    by (simp add: uint_word_ariths)
  ultimately show ?thesis
    by (simp add: Clamped_UAdd32_def limits_values UAdd32_overflow_iff [symmetric])
qed

text \<open>
  Both branches of C3, at \<open>UINT32_MAX + 1\<close> and at \<open>(UINT32_MAX - 1) + 1\<close>.
\<close>

theorem Clamped_UAdd32_overflow_test_witness:
  "Clamped_UAdd32 4294967295 1 = (MAX_UINT32, False)
   \<and> Clamped_UAdd32 4294967294 1 = (4294967294 + 1, True)
   \<and> uint (4294967294 + 1 :: uint32) = uint (4294967294 :: uint32) + uint (1 :: uint32)"
proof -
  have h1: "(4294967295 :: uint32) + 1 < 4294967295 \<or> (4294967295 :: uint32) + 1 < 1"
    by simp
  have h2: "\<not> ((4294967294 :: uint32) + 1 < 4294967294 \<or> (4294967294 :: uint32) + 1 < 1)"
    by simp
  from Clamped_UAdd32_overflow_test [of 4294967295 1] h1
  have "Clamped_UAdd32 4294967295 1 = (MAX_UINT32, False)"
    by blast
  moreover from Clamped_UAdd32_overflow_test [of 4294967294 1] h2
  have "Clamped_UAdd32 4294967294 1 = (4294967294 + 1, True)
      \<and> uint (4294967294 + 1 :: uint32) = uint (4294967294 :: uint32) + uint (1 :: uint32)"
    by blast
  ultimately show ?thesis
    by blast
qed

text \<open>
  C4. Multiplication is the narrowing of the wide product: \<open>Clamped_UMul32\<close> returns the
  pair that \<open>Clamped_U64To32\<close> returns on the exact product of the operands read as
  unsigned integers, \<open>Clamped_SMul32\<close> the pair that \<open>Clamped_S64To32\<close> returns on the
  exact product of the operands read as signed integers, and both exact products are
  held by 64 bits without loss.
\<close>

theorem multiplication_narrows_wide_product:
  fixes a b :: "32 word"
  shows "Clamped_UMul32 a b = spec_unsignedMul32 a b
       \<and> Clamped_SMul32 a b = spec_signedMul32 a b
       \<and> uint (word_of_int (uint a * uint b) :: uint64) = uint a * uint b
       \<and> sint (word_of_int (sint a * sint b) :: int64) = sint a * sint b"
proof -
  have u: "(ucast a :: uint64) * (ucast b :: uint64) = word_of_int (uint a * uint b)"
    by (simp add: word_uint_eq_iff uint_umul_64 uint_word_of_int take_bit_eq_mod uint_word_ariths)
  have s: "(scast a :: int64) * (scast b :: int64) = word_of_int (sint a * sint b)"
    by (simp add: word_eq_iff_signed [where 'a = int])
  show ?thesis
    unfolding Clamped_UMul32_def Clamped_SMul32_def spec_unsignedMul32_def spec_signedMul32_def
      u [symmetric] s [symmetric] uint_umul_64 sint_smul_64 by simp
qed

text \<open>
  C5. Totality and output validity: every operation defined on every input, a
  representable value always written, the clamp boundary written with \<open>FALSE\<close>. Five of the
  six operations are as the claim says: each returns \<open>TRUE\<close> exactly when the exact
  result is in the range of the output type, and the value written is the exact result
  clamped to that range, so the boundary is the one on the side of the exact result.
  \<open>Clamped_SAdd32\<close> is not: it has a defined result exactly when the exact sum is in
  range, and none at \<open>INT32_MAX + 1\<close>.
\<close>

theorem five_operations_valid_signed_add_partial:
  fixes a b :: "32 word" and w :: "64 word"
  shows "snd (Clamped_U64To32 w) = (uint w \<le> 4294967295)
       \<and> uint (fst (Clamped_U64To32 w)) = saturate 0 4294967295 (uint w)
       \<and> snd (Clamped_S64To32 w) = in_int32 (sint w)
       \<and> sint (fst (Clamped_S64To32 w)) = saturate (- 2147483648) 2147483647 (sint w)
       \<and> snd (Clamped_UMul32 a b) = (uint a * uint b \<le> 4294967295)
       \<and> uint (fst (Clamped_UMul32 a b)) = saturate 0 4294967295 (uint a * uint b)
       \<and> snd (Clamped_SMul32 a b) = in_int32 (sint a * sint b)
       \<and> sint (fst (Clamped_SMul32 a b)) = saturate (- 2147483648) 2147483647 (sint a * sint b)
       \<and> snd (Clamped_UAdd32 a b) = (uint a + uint b \<le> 4294967295)
       \<and> uint (fst (Clamped_UAdd32 a b)) = saturate 0 4294967295 (uint a + uint b)
       \<and> (Clamped_SAdd32 a b = None) = (\<not> in_int32 (sint a + sint b))
       \<and> Clamped_SAdd32 2147483647 1 = None"
proof -
  have "(Clamped_SAdd32 a b = None) = (\<not> in_int32 (sint a + sint b))"
    by (simp add: Clamped_SAdd32_char)
  then show ?thesis
    by (simp only: flag_U64To32 flag_S64To32 flag_UMul32 flag_SMul32 flag_UAdd32
        value_U64To32 value_S64To32 value_UMul32 value_SMul32 value_UAdd32
        Clamped_SAdd32_overflow_inputs simp_thms)
qed

text \<open>
  C6. The six concrete cases of the specification. Five evaluate as stated. The first,
  \<open>signedAdd32(INT32_MAX, 1) = (INT32_MAX, false)\<close>, does not: the addition of line 74 is
  undefined at this input, and so is the call.
\<close>

theorem concrete_cases_signed_add_undefined:
  "Clamped_SAdd32 MAX_INT32 1 = None
   \<and> Clamped_UAdd32 MAX_UINT32 1 = (MAX_UINT32, False)
   \<and> Clamped_U64To32 0x100000000 = (MAX_UINT32, False)
   \<and> Clamped_S64To32 (- 0x80000001) = (MIN_INT32, False)
   \<and> Clamped_UMul32 0xFFFFFFFF 2 = (MAX_UINT32, False)
   \<and> Clamped_SMul32 (- 1) MIN_INT32 = (MAX_INT32, False)
   \<and> sint MAX_INT32 = 2147483647 \<and> sint MIN_INT32 = - 2147483648
   \<and> uint MAX_UINT32 = 4294967295"
  by (simp add: Clamped_SAdd32_def add_int32_def in_int32_def Clamped_UAdd32_def
      Clamped_U64To32_def Clamped_S64To32_def Clamped_UMul32_def Clamped_SMul32_def
      MAX_INT32_def MIN_INT32_def MAX_UINT32_def word_sless_alt)

text \<open>
  C7. Commutativity of the two additions. \<open>Clamped_UAdd32\<close> returns the same pair when
  its arguments are exchanged, on every input. \<open>Clamped_SAdd32\<close> returns the same pair
  in both orders where it returns one, that is where the exact sum is in range; where it
  is not, as at \<open>INT32_MAX + 1\<close> and \<open>1 + INT32_MAX\<close>, neither order has a defined result,
  so there are no two pairs to be identical.
\<close>

theorem additions_commute_where_defined:
  fixes a b :: "32 word"
  shows "Clamped_UAdd32 a b = Clamped_UAdd32 b a
       \<and> Clamped_SAdd32 a b = (if in_int32 (sint a + sint b) then Some (a + b, True) else None)
       \<and> Clamped_SAdd32 b a = (if in_int32 (sint a + sint b) then Some (a + b, True) else None)
       \<and> Clamped_SAdd32 2147483647 1 = None
       \<and> Clamped_SAdd32 1 2147483647 = None"
proof -
  have "Clamped_UAdd32 a b = Clamped_UAdd32 b a"
    by (simp add: Clamped_UAdd32_char add.commute)
  moreover have "Clamped_SAdd32 b a =
      (if in_int32 (sint a + sint b) then Some (a + b, True) else None)"
    by (simp add: Clamped_SAdd32_char add.commute)
  ultimately show ?thesis
    using Clamped_SAdd32_char [of a b] Clamped_SAdd32_overflow_inputs(1,2) by blast
qed

text \<open>
  C8. \<open>Clamped_SAdd32\<close> is to detect overflow without evaluating a signed addition whose
  exact result is out of the \<open>int32\<close> range, as \<open>Clamped_SMul32\<close> does by widening. The
  code evaluates \<open>result = a + b\<close> at \<open>int32\<close> width before any test: at
  \<open>INT32_MAX + 1\<close> the exact sum is \<open>2^31\<close>, the addition is undefined and so is the
  call. The multiplication is as the claim says: the 64-bit product of two \<open>int32\<close>
  values never overflows.
\<close>

theorem signed_add_overflow_is_evaluated:
  fixes a b :: int32
  shows "\<not> in_int32 (sint (2147483647 :: int32) + sint (1 :: int32))
       \<and> add_int32 2147483647 1 = None
       \<and> Clamped_SAdd32 2147483647 1 = None
       \<and> Clamped_SMul32_checked a b = Some (Clamped_SMul32 a b)"
proof -
  have "in_int64 (sint (scast a :: int64) * sint (scast b :: int64))"
    using smul_32_bounds [of a b] by (simp add: in_int64_def sint_up_scast is_up)
  then have "Clamped_SMul32_checked a b = Some (Clamped_SMul32 a b)"
    by (simp add: Clamped_SMul32_checked_def mul_int64_checked_def Clamped_SMul32_def)
  then show ?thesis
    by (simp add: Clamped_SAdd32_overflow_inputs add_int32_def in_int32_def)
qed

text \<open>
  C9. Nearest representable result: the value written is the value of the output type
  closest to the exact result. For five operations this holds on every input: every
  other value \<open>y\<close> of \<open>int32\<close> (every other value \<open>z\<close> of \<open>uint32\<close>) is strictly farther
  from the exact result than the value written. \<open>Clamped_SAdd32\<close> writes the exact sum
  where it has a defined result, and has none where the exact sum is out of range, as at
  \<open>INT32_MAX + 1\<close>.
\<close>

theorem nearest_representable_signed_add_partial:
  fixes a b :: "32 word" and w :: "64 word" and y z :: int
  assumes "- 2147483648 \<le> y" and "y \<le> 2147483647"
    and "0 \<le> z" and "z \<le> 4294967295"
  shows "(z = uint (fst (Clamped_U64To32 w))
            \<or> \<bar>uint w - uint (fst (Clamped_U64To32 w))\<bar> < \<bar>uint w - z\<bar>)
       \<and> (y = sint (fst (Clamped_S64To32 w))
            \<or> \<bar>sint w - sint (fst (Clamped_S64To32 w))\<bar> < \<bar>sint w - y\<bar>)
       \<and> (z = uint (fst (Clamped_UMul32 a b))
            \<or> \<bar>uint a * uint b - uint (fst (Clamped_UMul32 a b))\<bar> < \<bar>uint a * uint b - z\<bar>)
       \<and> (y = sint (fst (Clamped_SMul32 a b))
            \<or> \<bar>sint a * sint b - sint (fst (Clamped_SMul32 a b))\<bar> < \<bar>sint a * sint b - y\<bar>)
       \<and> (z = uint (fst (Clamped_UAdd32 a b))
            \<or> \<bar>(uint a + uint b) - uint (fst (Clamped_UAdd32 a b))\<bar> < \<bar>(uint a + uint b) - z\<bar>)
       \<and> (case Clamped_SAdd32 a b of
             None \<Rightarrow> \<not> in_int32 (sint a + sint b)
           | Some p \<Rightarrow> sint (fst p) = sint a + sint b)
       \<and> Clamped_SAdd32 2147483647 1 = None"
proof -
  have s: "y = saturate (- 2147483648) 2147483647 x
      \<or> \<bar>x - saturate (- 2147483648) 2147483647 x\<bar> < \<bar>x - y\<bar>" for x
    using assms(1,2) by (intro saturate_closest) simp_all
  have u: "z = saturate 0 4294967295 x
      \<or> \<bar>x - saturate 0 4294967295 x\<bar> < \<bar>x - z\<bar>" for x
    using assms(3,4) by (intro saturate_closest) simp_all
  have sadd: "(case Clamped_SAdd32 a b of
             None \<Rightarrow> \<not> in_int32 (sint a + sint b)
           | Some p \<Rightarrow> sint (fst p) = sint a + sint b)"
    by (simp add: Clamped_SAdd32_char sint_add32_in_range)
  show ?thesis
    unfolding value_S64To32 value_SMul32 value_UAdd32 value_U64To32 value_UMul32
    using s u sadd Clamped_SAdd32_overflow_inputs(1) by blast
qed

text \<open>
  C9 at \<open>w = 2^32\<close> against \<open>z = UINT32_MAX - 1\<close> and \<open>y = INT32_MAX - 1\<close>.
\<close>

theorem nearest_representable_signed_add_partial_witness:
  "(4294967294 = uint (fst (Clamped_U64To32 4294967296))
      \<or> \<bar>uint (4294967296 :: uint64) - uint (fst (Clamped_U64To32 4294967296))\<bar>
          < \<bar>uint (4294967296 :: uint64) - 4294967294\<bar>)
   \<and> (2147483646 = sint (fst (Clamped_S64To32 4294967296))
      \<or> \<bar>sint (4294967296 :: int64) - sint (fst (Clamped_S64To32 4294967296))\<bar>
          < \<bar>sint (4294967296 :: int64) - 2147483646\<bar>)"
proof -
  have "- 2147483648 \<le> (2147483646 :: int)" "(2147483646 :: int) \<le> 2147483647"
    "0 \<le> (4294967294 :: int)" "(4294967294 :: int) \<le> 4294967295"
    by simp_all
  from nearest_representable_signed_add_partial [OF this, of 4294967296 2147483647 1]
  show ?thesis by blast
qed

text \<open>
  C10. Monotonicity: for \<open>uint32\<close> values with \<open>b1 \<le> b2\<close>, the value written by
  \<open>Clamped_UAdd32\<close> and by \<open>Clamped_UMul32\<close> does not decrease when \<open>b1\<close> is replaced
  by \<open>b2\<close>, in the second argument and in the first.
\<close>

theorem unsigned_results_monotone:
  fixes a b1 b2 :: uint32
  assumes "b1 \<le> b2"
  shows "fst (Clamped_UAdd32 a b1) \<le> fst (Clamped_UAdd32 a b2)
       \<and> fst (Clamped_UMul32 a b1) \<le> fst (Clamped_UMul32 a b2)
       \<and> fst (Clamped_UAdd32 b1 a) \<le> fst (Clamped_UAdd32 b2 a)
       \<and> fst (Clamped_UMul32 b1 a) \<le> fst (Clamped_UMul32 b2 a)"
proof -
  from assms have le: "uint b1 \<le> uint b2"
    by (simp add: word_le_def)
  have "uint a + uint b1 \<le> uint a + uint b2" "uint b1 + uint a \<le> uint b2 + uint a"
    using le by simp_all
  moreover have "uint a * uint b1 \<le> uint a * uint b2" "uint b1 * uint a \<le> uint b2 * uint a"
    using le by (simp_all add: mult_left_mono mult_right_mono)
  ultimately show ?thesis
    unfolding word_le_def value_UAdd32 value_UMul32
    by (simp add: saturate_mono)
qed

text \<open>
  C10 across the clamp: \<open>UINT32_MAX + 0\<close> and \<open>UINT32_MAX + 1\<close>, \<open>65536 * 65535\<close> and
  \<open>65536 * 65536\<close>, \<open>3 + 4\<close> and \<open>5 + 4\<close>.
\<close>

theorem unsigned_results_monotone_witness:
  "fst (Clamped_UAdd32 4294967295 0) \<le> fst (Clamped_UAdd32 4294967295 1)
   \<and> fst (Clamped_UMul32 65536 65535) \<le> fst (Clamped_UMul32 65536 65536)
   \<and> fst (Clamped_UAdd32 3 4) \<le> fst (Clamped_UAdd32 5 4)"
proof -
  have "(0 :: uint32) \<le> 1" "(65535 :: uint32) \<le> 65536" "(3 :: uint32) \<le> 5"
    by simp_all
  from unsigned_results_monotone [OF this(1), of 4294967295]
    unsigned_results_monotone [OF this(2), of 65536]
    unsigned_results_monotone [OF this(3), of 4]
  show ?thesis by blast
qed

end
